theory Spec2Isabelle
  imports Complex_Main "HOL-Library.Multiset"
begin

section \<open>The catalogue server: documents, store and image host\<close>

text \<open>
  \<^verbatim>\<open>server.js\<close> is a set of HTTP handlers over two collections of a document store
  (products and hero images) and a remote image host. A handler is modelled as a function
  from the environment of one request, the state of the world before the request and the
  request itself to the response and the state of the world after it. Every \<^verbatim>\<open>throw\<close>
  or rejected promise of the source is a value \<open>Inl e\<close>, and the \<^verbatim>\<open>try/catch\<close> of a
  handler is the case distinction on it.

  What the source takes from its libraries is either modelled after their documented
  behaviour (the operations on a collection, the validation of a schema, the file
  middleware) or taken from the environment of the request (the answers of the image host,
  the conversion of text to a number, the parsing of an object id, the clock). A lost
  connection to the store is not modelled: the store operations fail only for the reasons
  written out below.
\<close>

subsection \<open>Values of the request\<close>

type_synonym objectId = string
type_synonym time = nat
type_synonym buffer = string

text \<open>A JavaScript number: \<^verbatim>\<open>NaN\<close>, an infinity (positive when the flag is set) or a
  finite value. The handlers store numbers and never compute with them.\<close>

datatype jsnum = NaN | Infinity bool | Finite rat

text \<open>A value of a request body. A multipart form delivers text or nothing; a JSON body
  delivers the other primitive values too. Arrays and objects are one opaque case.\<close>

datatype jsval = JUndefined | JNull | JBool bool | JNumber jsnum | JString string | JObject

text \<open>One file part as the middleware hands it over (\<^verbatim>\<open>multer.memoryStorage()\<close>).\<close>

record multerFile =
  originalname :: string
  buffer :: buffer

text \<open>The answer of the image host to a completed upload.\<close>

record uploadResult =
  public_id :: string
  secure_url :: string

datatype error =
    CastError
  | ValidationError
  | DuplicateKey
  | UploadError
  | MulterError

subsection \<open>Documents (the two schemas)\<close>

text \<open>Every document has the id the store knows it by and, with
  \<^verbatim>\<open>{ timestamps: true }\<close>, the two timestamps the store maintains.\<close>

record doc =
  doc_id :: objectId
  createdAt :: time
  updatedAt :: time

text \<open>\<^verbatim>\<open>productSchema\<close>. A text field that holds \<^verbatim>\<open>null\<close> or is missing is \<open>None\<close>.\<close>

record product = doc +
  name :: "string option"
  category :: "string option"
  price :: jsnum
  mainImage :: string
  otherImages :: "string list"
  description :: "string option"
  quantity :: jsnum

text \<open>\<^verbatim>\<open>heroImageSchema\<close>.\<close>

record heroImage = doc +
  imageUrl :: string
  isActive :: bool

subsection \<open>The environment of a request and the state of the world\<close>

text \<open>
  \<^item> \<open>now\<close>: the clock reading the store stamps documents with during this request;
  \<^item> \<open>newId\<close>: the object id generated for a document constructed in this request;
  \<^item> \<open>castObjectId\<close>: the store's reading of a route parameter as an object id
    (\<open>None\<close>: the text is no object id, the query throws a cast error);
  \<^item> \<open>toNumber\<close>: JavaScript's \<^verbatim>\<open>Number\<close> on text;
  \<^item> \<open>upload_stream\<close>: what the image host passes to the callback of the \<open>i\<close>-th upload
    of this request, for its folder and bytes (\<open>None\<close>: no result, only an error);
  \<^item> \<open>omitUndefined\<close>: whether the store drops an undefined key of an update (otherwise it
    writes \<^verbatim>\<open>null\<close>); this differs between versions of the store's client.
\<close>

record env =
  now :: time
  newId :: objectId
  castObjectId :: "string \<Rightarrow> objectId option"
  toNumber :: "string \<Rightarrow> jsnum"
  upload_stream :: "nat \<Rightarrow> string \<Rightarrow> buffer \<Rightarrow> uploadResult option"
  omitUndefined :: bool

text \<open>The world: the two collections in insertion order, and the uploads issued to the
  image host so far (folder and bytes), oldest first.\<close>

record world =
  products :: "product list"
  heroes :: "heroImage list"
  uploads :: "(string \<times> buffer) list"

subsection \<open>Responses\<close>

text \<open>
  \<^item> \<open>Json s v\<close> is \<^verbatim>\<open>res.status(s).json(v)\<close> for a document, a list of documents or
    \<^verbatim>\<open>null\<close>;
  \<^item> \<open>Message s m\<close> is \<^verbatim>\<open>res.status(s).json({ message: m })\<close>;
  \<^item> \<open>Error s m\<close> is \<^verbatim>\<open>res.status(s).json({ error: m })\<close>;
  \<^item> \<open>Unhandled s\<close> is the answer of the framework's own error handler, reached when the
    middleware refuses the request before the handler runs.
\<close>

datatype 'a response = Json nat 'a | Message nat string | Error nat string | Unhandled nat

fun status :: "'a response \<Rightarrow> nat" where
  "status (Json s _) = s"
| "status (Message s _) = s"
| "status (Error s _) = s"
| "status (Unhandled s) = s"

subsection \<open>The document store\<close>

text \<open>
  A collection is the list of its documents in insertion order. The operations are the
  store's, as its client documents them: a query by id sees the first document with that
  id, \<^verbatim>\<open>updateOne\<close> and \<^verbatim>\<open>deleteOne\<close> change that document only, and an insert is refused
  when the id is taken (the unique index on the id).
\<close>

fun findOne :: "objectId \<Rightarrow> 'a doc_scheme list \<Rightarrow> 'a doc_scheme option" where
  "findOne k [] = None"
| "findOne k (d # ds) = (if doc_id d = k then Some d else findOne k ds)"

fun updateOne :: "objectId \<Rightarrow> 'a doc_scheme \<Rightarrow> 'a doc_scheme list \<Rightarrow> 'a doc_scheme list" where
  "updateOne k d' [] = []"
| "updateOne k d' (d # ds) = (if doc_id d = k then d' # ds else d # updateOne k d' ds)"

fun deleteOne :: "objectId \<Rightarrow> 'a doc_scheme list \<Rightarrow> 'a doc_scheme list" where
  "deleteOne k [] = []"
| "deleteOne k (d # ds) = (if doc_id d = k then ds else d # deleteOne k ds)"

definition insertOne :: "'a doc_scheme \<Rightarrow> 'a doc_scheme list \<Rightarrow> error + 'a doc_scheme list" where
  "insertOne d ds =
     (case findOne (doc_id d) ds of
        Some _ \<Rightarrow> Inl DuplicateKey
      | None \<Rightarrow> Inr (ds @ [d]))"

text \<open>\<^verbatim>\<open>Model.find().sort({ createdAt: -1 })\<close>: every document, newest first. The store
  promises no order among documents of equal \<open>createdAt\<close>; the model puts the one inserted
  later first. The query has no argument that could fail a cast; its result is a sum all
  the same, so that the \<^verbatim>\<open>catch\<close> of the handlers that call it is written out.\<close>

definition find_sort_createdAt_desc :: "'a doc_scheme list \<Rightarrow> error + 'a doc_scheme list" where
  "find_sort_createdAt_desc ds = Inr (rev (sort_key createdAt ds))"

text \<open>\<^verbatim>\<open>Model.findById(id)\<close>: the route parameter is cast to an object id first.\<close>

definition findById :: "env \<Rightarrow> string \<Rightarrow> 'a doc_scheme list \<Rightarrow> error + 'a doc_scheme option" where
  "findById env ident ds =
     (case castObjectId env ident of
        None \<Rightarrow> Inl CastError
      | Some k \<Rightarrow> Inr (findOne k ds))"

text \<open>\<^verbatim>\<open>Model.findByIdAndDelete(id)\<close>.\<close>

definition findByIdAndDelete :: "env \<Rightarrow> string \<Rightarrow> 'a doc_scheme list \<Rightarrow> error + 'a doc_scheme list" where
  "findByIdAndDelete env ident ds =
     (case castObjectId env ident of
        None \<Rightarrow> Inl CastError
      | Some k \<Rightarrow> Inr (deleteOne k ds))"

text \<open>\<^verbatim>\<open>doc.save()\<close> of a document constructed in this request (the first argument is the
  schema's validation), and of a document that was read from the collection. A save
  validates the document against its schema; saving a modified stored document stamps
  \<open>updatedAt\<close>. The timestamps of a new document are written where it is constructed.\<close>

definition save_new ::
  "('a doc_scheme \<Rightarrow> bool) \<Rightarrow> 'a doc_scheme \<Rightarrow> 'a doc_scheme list \<Rightarrow> error + 'a doc_scheme list" where
  "save_new valid d ds = (if valid d then insertOne d ds else Inl ValidationError)"

definition save_modified ::
  "env \<Rightarrow> ('a doc_scheme \<Rightarrow> bool) \<Rightarrow> 'a doc_scheme \<Rightarrow> 'a doc_scheme list
     \<Rightarrow> error + ('a doc_scheme \<times> 'a doc_scheme list)" where
  "save_modified env valid d ds =
     (if valid d
      then (let d' = d\<lparr>updatedAt := now env\<rparr> in Inr (d', updateOne (doc_id d) d' ds))
      else Inl ValidationError)"

subsection \<open>The schemas' validation\<close>

text \<open>A required text path holds a non-empty text; a number path refuses \<^verbatim>\<open>NaN\<close> (the cast
  to a number fails on it).\<close>

definition required_text :: "string option \<Rightarrow> bool" where
  "required_text v = (case v of None \<Rightarrow> False | Some s \<Rightarrow> s \<noteq> [])"

definition validateProduct :: "product \<Rightarrow> bool" where
  "validateProduct p =
     (required_text (name p) \<and> required_text (category p) \<and> price p \<noteq> NaN \<and>
      mainImage p \<noteq> [] \<and> quantity p \<noteq> NaN)"

definition validateHeroImage :: "heroImage \<Rightarrow> bool" where
  "validateHeroImage h = (imageUrl h \<noteq> [])"

subsection \<open>The file middleware\<close>

text \<open>The argument is the file parts of the request under the route's field name, \<open>None\<close>
  when the request is no multipart form (the middleware then leaves the request alone).
  \<^verbatim>\<open>upload.array(field, maxCount)\<close> yields \<^verbatim>\<open>req.files\<close>, \<^verbatim>\<open>upload.single(field)\<close> yields
  \<^verbatim>\<open>req.file\<close>; one part too many is an error handed to the framework.\<close>

definition upload_array :: "nat \<Rightarrow> multerFile list option \<Rightarrow> error + multerFile list option" where
  "upload_array maxCount parts =
     (case parts of
        None \<Rightarrow> Inr None
      | Some fs \<Rightarrow> if maxCount < length fs then Inl MulterError else Inr (Some fs))"

fun upload_single :: "multerFile list option \<Rightarrow> error + multerFile option" where
  "upload_single None = Inr None"
| "upload_single (Some []) = Inr None"
| "upload_single (Some [f]) = Inr (Some f)"
| "upload_single (Some (f # g # fs)) = Inl MulterError"

subsection \<open>Helpers: upload to the image host\<close>

definition uploadToCloudinary :: "env \<Rightarrow> nat \<Rightarrow> buffer \<Rightarrow> error + uploadResult" where
  "uploadToCloudinary env i buf =
     (case upload_stream env i ''maison_products'' buf of
        Some result \<Rightarrow> Inr result
      | None \<Rightarrow> Inl UploadError)"

definition uploadHeroToCloudinary :: "env \<Rightarrow> nat \<Rightarrow> buffer \<Rightarrow> error + uploadResult" where
  "uploadHeroToCloudinary env i buf =
     (case upload_stream env i ''maison_hero'' buf of
        Some result \<Rightarrow> Inr result
      | None \<Rightarrow> Inl UploadError)"

text \<open>\<^verbatim>\<open>Promise.all\<close>: the results in the order of the promises when all are fulfilled, a
  rejection when one is rejected. (The source logs the error and answers the same for any
  error; the model reports the first rejection in list order.)\<close>

fun Promise_all :: "(error + 'a) list \<Rightarrow> error + 'a list" where
  "Promise_all [] = Inr []"
| "Promise_all (Inl e # ps) = Inl e"
| "Promise_all (Inr r # ps) = (case Promise_all ps of Inl e \<Rightarrow> Inl e | Inr rs \<Rightarrow> Inr (r # rs))"

text \<open>\<^verbatim>\<open>req.files.map(file => uploadToCloudinary(file.buffer))\<close> starts every upload before
  any of them is awaited: all of them reach the image host, whatever their outcome.\<close>

definition issue_uploads :: "string \<Rightarrow> multerFile list \<Rightarrow> world \<Rightarrow> world" where
  "issue_uploads folder fs w = w\<lparr>uploads := uploads w @ map (\<lambda>f. (folder, buffer f)) fs\<rparr>"

definition upload_promises :: "env \<Rightarrow> multerFile list \<Rightarrow> (error + uploadResult) list" where
  "upload_promises env fs = map (\<lambda>(i, f). uploadToCloudinary env i (buffer f)) (enumerate 0 fs)"

subsection \<open>JavaScript coercions of a text field\<close>

definition Number :: "env \<Rightarrow> string option \<Rightarrow> jsnum" where
  "Number env v = (case v of None \<Rightarrow> NaN | Some s \<Rightarrow> toNumber env s)"

definition truthy :: "string option \<Rightarrow> bool" where
  "truthy v = (case v of None \<Rightarrow> False | Some s \<Rightarrow> s \<noteq> [])"

section \<open>Routes\<close>

text \<open>The five fields the product handlers read from \<^verbatim>\<open>req.body\<close>. They arrive as text;
  \<open>None\<close> is a field the body does not have (\<^verbatim>\<open>undefined\<close> in the handler).\<close>

record productBody =
  body_name :: "string option"
  body_category :: "string option"
  body_price :: "string option"
  body_description :: "string option"
  body_quantity :: "string option"

text \<open>The request of the two product routes that take a form: the body as it reaches the
  middleware and the file parts under \<^verbatim>\<open>images\<close> (\<open>None\<close>: the request is no multipart
  form). The body is \<open>None\<close> when \<^verbatim>\<open>req.body\<close> is \<^verbatim>\<open>undefined\<close>, which is what a request
  is left with when no parser has read a body from it.\<close>

record productRequest =
  body :: "productBody option"
  images :: "multerFile list option"

text \<open>For a multipart form the file middleware creates \<^verbatim>\<open>req.body\<close> and fills in the text
  fields of the form, so the handler always finds an object there; any other request it
  leaves alone.\<close>

definition no_fields :: productBody where
  "no_fields = \<lparr> body_name = None, body_category = None, body_price = None,
                  body_description = None, body_quantity = None \<rparr>"

definition multer_body :: "productRequest \<Rightarrow> productBody option" where
  "multer_body req =
     (case images req of
        None \<Rightarrow> body req
      | Some fs \<Rightarrow> Some (case body req of None \<Rightarrow> no_fields | Some b \<Rightarrow> b))"

text \<open>The request of the hero image route: \<^verbatim>\<open>req.body.isActive\<close> and the file parts
  under \<^verbatim>\<open>image\<close>. The handler reads the body only after it has found a file, that is in
  a multipart form, where the body is an object: \<open>JUndefined\<close> is a form without the
  field.\<close>

record heroRequest =
  body_isActive :: jsval
  image :: "multerFile list option"

subsection \<open>Create product\<close>

text \<open>The middleware runs before the handler. The handler first takes the five fields
  out of \<^verbatim>\<open>req.body\<close>, which throws into the \<^verbatim>\<open>catch\<close> when \<^verbatim>\<open>req.body\<close> is \<^verbatim>\<open>undefined\<close>,
  and only then looks at the files. Further down, \<^verbatim>\<open>uploadResults[0]\<close> of an empty array
  would be \<^verbatim>\<open>undefined\<close> and reading its \<^verbatim>\<open>secure_url\<close> would throw as well: that is the
  case \<open>[]\<close> below.\<close>

definition post_products :: "env \<Rightarrow> world \<Rightarrow> productRequest \<Rightarrow> product response \<times> world" where
  "post_products env w req =
     (case upload_array 5 (images req) of
        Inl err \<Rightarrow> (Unhandled 500, w)
      | Inr files \<Rightarrow>
          (case multer_body req of
             None \<Rightarrow> (Error 500 ''Server error'', w)
           | Some b \<Rightarrow>
               (case files of
                  None \<Rightarrow> (Error 400 ''No images uploaded'', w)
                | Some fs \<Rightarrow>
                    if length fs = 0 then (Error 400 ''No images uploaded'', w)
                    else
                      (let w1 = issue_uploads ''maison_products'' fs w in
                       case Promise_all (upload_promises env fs) of
                         Inl err \<Rightarrow> (Error 500 ''Server error'', w1)
                       | Inr uploadResults \<Rightarrow>
                           (case uploadResults of
                              [] \<Rightarrow> (Error 500 ''Server error'', w1)
                            | r # rs \<Rightarrow>
                                (let newProduct =
                                   \<lparr> doc_id = newId env, createdAt = now env,
                                     updatedAt = now env,
                                     name = body_name b,
                                     category = body_category b,
                                     price = Number env (body_price b),
                                     mainImage = secure_url r,
                                     otherImages = map secure_url rs,
                                     description = body_description b,
                                     quantity = (if truthy (body_quantity b)
                                                 then Number env (body_quantity b)
                                                 else Finite 0) \<rparr>
                                 in case save_new validateProduct newProduct (products w1) of
                                      Inl err \<Rightarrow> (Error 500 ''Server error'', w1)
                                    | Inr ps \<Rightarrow>
                                        (Json 201 newProduct, w1\<lparr>products := ps\<rparr>)))))))"

subsection \<open>Get all products\<close>

definition get_products :: "world \<Rightarrow> product list response \<times> world" where
  "get_products w =
     (case find_sort_createdAt_desc (products w) of
        Inl err \<Rightarrow> (Error 500 ''Server error'', w)
      | Inr ps \<Rightarrow> (Json 200 ps, w))"

subsection \<open>Delete product\<close>

definition delete_product :: "env \<Rightarrow> world \<Rightarrow> string \<Rightarrow> unit response \<times> world" where
  "delete_product env w ident =
     (case findByIdAndDelete env ident (products w) of
        Inl err \<Rightarrow> (Error 500 ''Server error'', w)
      | Inr ps \<Rightarrow> (Message 200 ''Product deleted'', w\<lparr>products := ps\<rparr>))"

subsection \<open>Update product\<close>

text \<open>This handler too takes the fields out of \<^verbatim>\<open>req.body\<close> before anything else.
  \<^verbatim>\<open>updateData\<close>: the five keys the handler always writes, and the two image keys,
  which the object has only when files came with the request (\<open>None\<close>: no such key).\<close>

record updateData =
  upd_name :: "string option"
  upd_category :: "string option"
  upd_price :: jsnum
  upd_description :: "string option"
  upd_quantity :: jsnum
  upd_mainImage :: "string option"
  upd_otherImages :: "string list option"

text \<open>What the store writes for a text key of the update: the text; for an undefined
  value nothing or \<^verbatim>\<open>null\<close>, as the client has it.\<close>

definition set_text :: "env \<Rightarrow> string option \<Rightarrow> string option \<Rightarrow> string option" where
  "set_text env v old =
     (case v of
        Some s \<Rightarrow> Some s
      | None \<Rightarrow> if omitUndefined env then old else None)"

definition apply_update :: "env \<Rightarrow> updateData \<Rightarrow> product \<Rightarrow> product" where
  "apply_update env u p =
     p\<lparr> name := set_text env (upd_name u) (name p),
        category := set_text env (upd_category u) (category p),
        price := upd_price u,
        description := set_text env (upd_description u) (description p),
        quantity := upd_quantity u,
        mainImage := (case upd_mainImage u of None \<Rightarrow> mainImage p | Some m \<Rightarrow> m),
        otherImages := (case upd_otherImages u of None \<Rightarrow> otherImages p | Some os \<Rightarrow> os),
        updatedAt := now env \<rparr>"

text \<open>\<^verbatim>\<open>Product.findByIdAndUpdate(id, updateData, { new: true })\<close>: the id and the update
  are cast first (a number key holding \<^verbatim>\<open>NaN\<close> fails the cast); the update runs no
  validation; the result is the document after the update, or \<^verbatim>\<open>null\<close> when no document
  has the id.\<close>

definition findByIdAndUpdate ::
  "env \<Rightarrow> string \<Rightarrow> updateData \<Rightarrow> product list \<Rightarrow> error + (product option \<times> product list)" where
  "findByIdAndUpdate env ident u ps =
     (case castObjectId env ident of
        None \<Rightarrow> Inl CastError
      | Some k \<Rightarrow>
          if upd_price u = NaN \<or> upd_quantity u = NaN then Inl CastError
          else
            (case findOne k ps of
               None \<Rightarrow> Inr (None, ps)
             | Some p \<Rightarrow>
                 (let p' = apply_update env u p in Inr (Some p', updateOne k p' ps))))"

definition put_product ::
  "env \<Rightarrow> world \<Rightarrow> string \<Rightarrow> productRequest \<Rightarrow> product option response \<times> world" where
  "put_product env w ident req =
     (case upload_array 5 (images req) of
        Inl err \<Rightarrow> (Unhandled 500, w)
      | Inr files \<Rightarrow>
          (case multer_body req of
             None \<Rightarrow> (Error 500 ''Server error'', w)
           | Some b \<Rightarrow>
               (let updateData =
                  \<lparr> upd_name = body_name b,
                    upd_category = body_category b,
                    upd_price = Number env (body_price b),
                    upd_description = body_description b,
                    upd_quantity = Number env (body_quantity b),
                    upd_mainImage = None,
                    upd_otherImages = None \<rparr>;
                    fs = (case files of None \<Rightarrow> [] | Some fs \<Rightarrow> fs)
                in if 0 < length fs
                   then
                     (let w1 = issue_uploads ''maison_products'' fs w in
                      case Promise_all (upload_promises env fs) of
                        Inl err \<Rightarrow> (Error 500 ''Server error'', w1)
                      | Inr uploadResults \<Rightarrow>
                          (case uploadResults of
                             [] \<Rightarrow> (Error 500 ''Server error'', w1)
                           | r # rs \<Rightarrow>
                               (case findByIdAndUpdate env ident
                                       (updateData\<lparr> upd_mainImage := Some (secure_url r),
                                                    upd_otherImages := Some (map secure_url rs) \<rparr>)
                                       (products w1) of
                                  Inl err \<Rightarrow> (Error 500 ''Server error'', w1)
                                | Inr (updatedProduct, ps) \<Rightarrow>
                                    (Json 200 updatedProduct, w1\<lparr>products := ps\<rparr>))))
                   else
                     (case findByIdAndUpdate env ident updateData (products w) of
                        Inl err \<Rightarrow> (Error 500 ''Server error'', w)
                      | Inr (updatedProduct, ps) \<Rightarrow>
                          (Json 200 updatedProduct, w\<lparr>products := ps\<rparr>)))))"

subsection \<open>Create hero image\<close>

definition post_hero_images :: "env \<Rightarrow> world \<Rightarrow> heroRequest \<Rightarrow> heroImage response \<times> world" where
  "post_hero_images env w req =
     (case upload_single (image req) of
        Inl err \<Rightarrow> (Unhandled 500, w)
      | Inr file \<Rightarrow>
          (case file of
             None \<Rightarrow> (Error 400 ''No image uploaded'', w)
           | Some f \<Rightarrow>
               (let w1 = issue_uploads ''maison_hero'' [f] w in
                case uploadHeroToCloudinary env 0 (buffer f) of
                  Inl err \<Rightarrow> (Error 500 ''Server error'', w1)
                | Inr result \<Rightarrow>
                    (let hero =
                       \<lparr> doc_id = newId env, createdAt = now env, updatedAt = now env,
                         imageUrl = secure_url result,
                         isActive = (body_isActive req = JString ''true'' \<or>
                                     body_isActive req = JBool True) \<rparr>
                     in case save_new validateHeroImage hero (heroes w1) of
                          Inl err \<Rightarrow> (Error 500 ''Server error'', w1)
                        | Inr hs \<Rightarrow> (Json 201 hero, w1\<lparr>heroes := hs\<rparr>)))))"

subsection \<open>Fetch hero images\<close>

definition get_hero_images :: "world \<Rightarrow> heroImage list response \<times> world" where
  "get_hero_images w =
     (case find_sort_createdAt_desc (heroes w) of
        Inl err \<Rightarrow> (Error 500 ''Server error'', w)
      | Inr hs \<Rightarrow> (Json 200 hs, w))"

subsection \<open>Activate or deactivate a hero image\<close>

definition patch_hero_toggle :: "env \<Rightarrow> world \<Rightarrow> string \<Rightarrow> heroImage response \<times> world" where
  "patch_hero_toggle env w ident =
     (case findById env ident (heroes w) of
        Inl err \<Rightarrow> (Error 500 ''Server error'', w)
      | Inr None \<Rightarrow> (Error 404 ''Hero image not found'', w)
      | Inr (Some hero) \<Rightarrow>
          (case save_modified env validateHeroImage (hero\<lparr>isActive := \<not> isActive hero\<rparr>) (heroes w) of
             Inl err \<Rightarrow> (Error 500 ''Server error'', w)
           | Inr (saved, hs) \<Rightarrow> (Json 200 saved, w\<lparr>heroes := hs\<rparr>)))"

subsection \<open>Delete hero image\<close>

definition delete_hero_image :: "env \<Rightarrow> world \<Rightarrow> string \<Rightarrow> unit response \<times> world" where
  "delete_hero_image env w ident =
     (case findByIdAndDelete env ident (heroes w) of
        Inl err \<Rightarrow> (Error 500 ''Server error'', w)
      | Inr hs \<Rightarrow> (Message 200 ''Hero image deleted'', w\<lparr>heroes := hs\<rparr>))"

section \<open>Derived notions used in the statements\<close>

text \<open>What the image host answers to the files of a product request, in submission
  order (\<open>None\<close> where it answers the \<open>i\<close>-th file with an error), and the hosted URLs,
  which are the \<^verbatim>\<open>secure_url\<close>s of the answers.\<close>

definition host_answers :: "env \<Rightarrow> multerFile list \<Rightarrow> uploadResult option list" where
  "host_answers env fs =
     map (\<lambda>(i, f). upload_stream env i ''maison_products'' (buffer f)) (enumerate 0 fs)"

definition hosted_urls :: "env \<Rightarrow> multerFile list \<Rightarrow> string option list" where
  "hosted_urls env fs = map (map_option secure_url) (host_answers env fs)"

text \<open>A collection ordered by \<open>createdAt\<close>, newest first.\<close>

definition newest_first :: "'a doc_scheme list \<Rightarrow> bool" where
  "newest_first ds = sorted_wrt (\<lambda>a b. createdAt b \<le> createdAt a) ds"

text \<open>The \<^verbatim>\<open>updateData\<close> the update handler builds from the body, before any image
  key is added.\<close>

definition body_update :: "env \<Rightarrow> productBody \<Rightarrow> updateData" where
  "body_update env b =
     \<lparr> upd_name = body_name b,
       upd_category = body_category b,
       upd_price = Number env (body_price b),
       upd_description = body_description b,
       upd_quantity = Number env (body_quantity b),
       upd_mainImage = None,
       upd_otherImages = None \<rparr>"

text \<open>Every stored hero image satisfies its schema.\<close>

definition heroes_valid :: "world \<Rightarrow> bool" where
  "heroes_valid w = list_all validateHeroImage (heroes w)"

section \<open>A sample environment and sample states\<close>

text \<open>The text of an object id: 24 hexadecimal digits, read without regard to case.\<close>

definition lower_hex :: "char \<Rightarrow> char" where
  "lower_hex c =
     (if c = CHR ''A'' then CHR ''a'' else if c = CHR ''B'' then CHR ''b''
      else if c = CHR ''C'' then CHR ''c'' else if c = CHR ''D'' then CHR ''d''
      else if c = CHR ''E'' then CHR ''e'' else if c = CHR ''F'' then CHR ''f'' else c)"

definition hexObjectId :: "string \<Rightarrow> objectId option" where
  "hexObjectId s =
     (if length s = 24 \<and> list_all (\<lambda>c. lower_hex c \<in> set ''0123456789abcdef'') s
      then Some (map lower_hex s) else None)"

text \<open>\<^verbatim>\<open>Number\<close> on a text of decimal digits; the sample environment is used on such texts
  and on texts that are no number at all.\<close>

definition digit_value :: "char \<Rightarrow> nat option" where
  "digit_value = map_of (zip ''0123456789'' [0, 1, 2, 3, 4, 5, 6, 7, 8, 9])"

fun decimal :: "nat \<Rightarrow> string \<Rightarrow> jsnum" where
  "decimal acc [] = Finite (of_nat acc)"
| "decimal acc (c # cs) =
     (case digit_value c of None \<Rightarrow> NaN | Some d \<Rightarrow> decimal (10 * acc + d) cs)"

text \<open>An image host that refuses an empty file and stores any other under a URL made of
  the folder and the bytes.\<close>

definition sample_host :: "nat \<Rightarrow> string \<Rightarrow> buffer \<Rightarrow> uploadResult option" where
  "sample_host i folder buf =
     (if buf = [] then None
      else Some \<lparr> public_id = folder @ ''/'' @ buf,
                  secure_url = ''https://img.test/'' @ folder @ ''/'' @ buf \<rparr>)"

definition env0 :: env where
  "env0 = \<lparr> now = 2000, newId = ''0000000000000000000000c3'',
             castObjectId = hexObjectId, toNumber = decimal 0,
             upload_stream = sample_host, omitUndefined = True \<rparr>"

definition chair :: product where
  "chair = \<lparr> doc_id = ''0000000000000000000000a1'', createdAt = 1000, updatedAt = 1000,
              name = Some ''Chair'', category = Some ''Living'', price = Finite 120,
              mainImage = ''https://img.test/maison_products/c0'',
              otherImages = [''https://img.test/maison_products/c1''],
              description = None, quantity = Finite 4 \<rparr>"

definition lamp :: product where
  "lamp = \<lparr> doc_id = ''0000000000000000000000a2'', createdAt = 1500, updatedAt = 1500,
             name = Some ''Lamp'', category = Some ''Light'', price = Finite 35,
             mainImage = ''https://img.test/maison_products/l0'',
             otherImages = [],
             description = Some ''Brass'', quantity = Finite 0 \<rparr>"

definition banner :: heroImage where
  "banner = \<lparr> doc_id = ''0000000000000000000000b1'', createdAt = 1200, updatedAt = 1200,
               imageUrl = ''https://img.test/maison_hero/h0'', isActive = False \<rparr>"

definition poster :: heroImage where
  "poster = \<lparr> doc_id = ''0000000000000000000000b2'', createdAt = 1800, updatedAt = 1800,
               imageUrl = ''https://img.test/maison_hero/h1'', isActive = True \<rparr>"

definition world0 :: world where
  "world0 = \<lparr> products = [chair, lamp], heroes = [banner, poster], uploads = [] \<rparr>"

definition photo :: "string \<Rightarrow> multerFile" where
  "photo bytes = \<lparr> originalname = ''photo.jpg'', buffer = bytes \<rparr>"

definition fields0 :: productBody where
  "fields0 = \<lparr> body_name = Some ''Table'', body_category = Some ''Dining'',
                body_price = Some ''250'', body_description = None,
                body_quantity = Some ''2'' \<rparr>"

definition form0 :: productRequest where
  "form0 = \<lparr> body = Some fields0, images = Some [photo ''t0'', photo ''t1'', photo ''t2''] \<rparr>"

definition form_bad :: productRequest where
  "form_bad = form0\<lparr>images := Some [photo ''t0'', photo []]\<rparr>"

definition table :: product where
  "table = \<lparr> doc_id = ''0000000000000000000000c3'', createdAt = 2000, updatedAt = 2000,
              name = Some ''Table'', category = Some ''Dining'', price = Finite 250,
              mainImage = ''https://img.test/maison_products/t0'',
              otherImages = [''https://img.test/maison_products/t1'',
                             ''https://img.test/maison_products/t2''],
              description = None, quantity = Finite 2 \<rparr>"

definition banner_on :: heroImage where
  "banner_on = banner\<lparr>isActive := True, updatedAt := 2000\<rparr>"


definition hero_form :: "jsval \<Rightarrow> heroRequest" where
  "hero_form v = \<lparr> body_isActive = v, image = Some [photo ''h2''] \<rparr>"

definition slide :: "bool \<Rightarrow> heroImage" where
  "slide a = \<lparr> doc_id = ''0000000000000000000000c3'', createdAt = 2000, updatedAt = 2000,
               imageUrl = ''https://img.test/maison_hero/h2'', isActive = a \<rparr>"

definition form_no_files :: productRequest where
  "form_no_files = form0\<lparr>images := None\<rparr>"

definition price_only :: productRequest where
  "price_only = \<lparr> body = Some (no_fields\<lparr>body_price := Some ''150''\<rparr>), images = None \<rparr>"

text \<open>A request that carries no form and no body at all.\<close>

definition bare_request :: productRequest where
  "bare_request = \<lparr> body = None, images = None \<rparr>"

definition chair_updated :: product where
  "chair_updated = chair\<lparr> name := Some ''Table'', category := Some ''Dining'',
                           price := Finite 250, quantity := Finite 2, updatedAt := 2000 \<rparr>"

lemmas sample_defs =
  env0_def world0_def form0_def fields0_def form_bad_def photo_def chair_def lamp_def banner_def
  poster_def table_def sample_host_def hexObjectId_def lower_hex_def digit_value_def

lemmas handler_defs =
  upload_array_def issue_uploads_def upload_promises_def uploadToCloudinary_def
  uploadHeroToCloudinary_def save_new_def save_modified_def insertOne_def validateProduct_def
  validateHeroImage_def required_text_def Number_def truthy_def findById_def
  findByIdAndDelete_def findByIdAndUpdate_def apply_update_def set_text_def
  find_sort_createdAt_desc_def hosted_urls_def host_answers_def multer_body_def no_fields_def
  Let_def

section \<open>Facts about the helpers\<close>

subsection \<open>Promises and uploads\<close>

lemma Promise_all_Inr: "Promise_all ps = Inr rs \<Longrightarrow> ps = map Inr rs"
proof (induction ps arbitrary: rs)
  case Nil
  then show ?case by simp
next
  case (Cons p ps)
  show ?case
  proof (cases p)
    case (Inl e)
    with Cons.prems show ?thesis by simp
  next
    case (Inr r)
    with Cons.prems obtain rs' where "Promise_all ps = Inr rs'" and "rs = r # rs'"
      by (auto split: sum.splits)
    with Cons.IH Inr show ?thesis by simp
  qed
qed

lemma Promise_all_rejected: "Inl e \<in> set ps \<Longrightarrow> \<exists>e'. Promise_all ps = Inl e'"
proof (induction ps)
  case Nil
  then show ?case by simp
next
  case (Cons p ps)
  then show ?case by (cases p) (auto split: sum.splits)
qed

lemma Promise_all_fulfilled: "Promise_all (map Inr rs) = Inr rs"
  by (induction rs) simp_all

lemma hosted_urls_promises:
  "hosted_urls env fs =
     map (\<lambda>x. case x of Inl e \<Rightarrow> None | Inr r \<Rightarrow> Some (secure_url r)) (upload_promises env fs)"
  by (simp add: hosted_urls_def host_answers_def upload_promises_def uploadToCloudinary_def
      split: option.splits prod.splits)

lemma hosted_urls_fulfilled:
  "upload_promises env fs = map Inr rs \<Longrightarrow> hosted_urls env fs = map Some (map secure_url rs)"
  by (simp add: hosted_urls_promises)

lemma length_upload_promises: "length (upload_promises env fs) = length fs"
  by (simp add: upload_promises_def)

lemma upload_promises_failed:
  assumes "i < length fs" and "upload_stream env i ''maison_products'' (buffer (fs ! i)) = None"
  shows "Inl UploadError \<in> set (upload_promises env fs)"
proof -
  have "upload_promises env fs ! i = Inl UploadError"
    using assms by (simp add: upload_promises_def nth_enumerate_eq uploadToCloudinary_def)
  moreover have "i < length (upload_promises env fs)"
    using assms(1) by (simp add: length_upload_promises)
  ultimately show ?thesis by (metis nth_mem)
qed

lemma upload_array_Inr:
  "upload_array n parts = Inr files \<Longrightarrow> files = parts \<and> (\<forall>fs. parts = Some fs \<longrightarrow> length fs \<le> n)"
  by (auto simp: upload_array_def split: option.splits if_splits)

lemma products_issue_uploads [simp]: "products (issue_uploads folder fs w) = products w"
  by (simp add: issue_uploads_def)

lemma heroes_issue_uploads [simp]: "heroes (issue_uploads folder fs w) = heroes w"
  by (simp add: issue_uploads_def)

lemma uploads_issue_uploads [simp]:
  "uploads (issue_uploads folder fs w) = uploads w @ map (\<lambda>f. (folder, buffer f)) fs"
  by (simp add: issue_uploads_def)

lemma host_answers_promises:
  "host_answers env fs = map Some rs \<longleftrightarrow> upload_promises env fs = map Inr rs"
proof -
  have "upload_promises env fs =
      map (\<lambda>a. case a of None \<Rightarrow> Inl UploadError | Some r \<Rightarrow> Inr r) (host_answers env fs)"
    by (simp add: host_answers_def upload_promises_def uploadToCloudinary_def
        split: option.splits prod.splits)
  moreover have "map (\<lambda>a. case a of None \<Rightarrow> Inl UploadError | Some r \<Rightarrow> Inr r) xs = map Inr rs
      \<longleftrightarrow> xs = map Some rs" for xs :: "uploadResult option list"
  proof (induction xs arbitrary: rs)
    case Nil
    show ?case by auto
  next
    case (Cons x xs)
    show ?case
    proof (cases rs)
      case Nil
      then show ?thesis by simp
    next
      case (Cons r rs')
      with Cons.IH [of rs'] show ?thesis
        by (cases x) auto
    qed
  qed
  ultimately show ?thesis by auto
qed

lemma multer_body_files: "images req = Some fs \<Longrightarrow> body req = Some b \<Longrightarrow> multer_body req = Some b"
  by (simp add: multer_body_def)

lemma multer_body_form: "images req = Some fs \<Longrightarrow> \<exists>b. multer_body req = Some b"
  by (simp add: multer_body_def)

subsection \<open>The store\<close>

lemma insertOne_Inr: "insertOne d ds = Inr ds' \<Longrightarrow> ds' = ds @ [d]"
  by (auto simp: insertOne_def split: option.splits)

lemma save_new_Inr: "save_new valid d ds = Inr ds' \<Longrightarrow> valid d \<and> ds' = ds @ [d]"
  by (auto simp: save_new_def dest: insertOne_Inr split: if_splits)

lemma findOne_Some_id: "findOne k ds = Some d \<Longrightarrow> doc_id d = k"
  by (induction ds) (auto split: if_splits)

lemma findOne_None_iff: "findOne k ds = None \<longleftrightarrow> k \<notin> doc_id ` set ds"
  by (induction ds) auto

lemma findOne_split:
  "findOne k ds = Some d \<Longrightarrow>
     \<exists>ys zs. ds = ys @ d # zs \<and> k \<notin> doc_id ` set ys \<and> updateOne k d' ds = ys @ d' # zs"
proof (induction ds)
  case Nil
  then show ?case by simp
next
  case (Cons a ds)
  show ?case
  proof (cases "doc_id a = k")
    case True
    with Cons.prems have "a = d" by simp
    with True have "a # ds = [] @ d # ds \<and> k \<notin> doc_id ` set [] \<and>
        updateOne k d' (a # ds) = [] @ d' # ds"
      by simp
    then show ?thesis by blast
  next
    case False
    with Cons obtain ys zs where
      "ds = ys @ d # zs" "k \<notin> doc_id ` set ys" "updateOne k d' ds = ys @ d' # zs"
      by auto
    with False have "a # ds = (a # ys) @ d # zs \<and> k \<notin> doc_id ` set (a # ys) \<and>
        updateOne k d' (a # ds) = (a # ys) @ d' # zs"
      by auto
    then show ?thesis by blast
  qed
qed

lemma findOne_updateOne_same:
  "findOne k ds = Some d \<Longrightarrow> doc_id d' = k \<Longrightarrow> findOne k (updateOne k d' ds) = Some d'"
  by (induction ds) (auto split: if_splits)


lemma deleteOne_absent: "findOne k ds = None \<Longrightarrow> deleteOne k ds = ds"
  by (induction ds) (auto split: if_splits)

lemma list_all_updateOne: "list_all P ds \<Longrightarrow> P d' \<Longrightarrow> list_all P (updateOne k d' ds)"
  by (induction ds) auto

lemma list_all_deleteOne: "list_all P ds \<Longrightarrow> list_all P (deleteOne k ds)"
  by (induction ds) auto

lemma findOne_list_all: "list_all P ds \<Longrightarrow> findOne k ds = Some d \<Longrightarrow> P d"
  by (induction ds) (auto split: if_splits)

section \<open>Creating a product\<close>

lemma post_products_persisted:
  assumes "post_products env w req = (Json 201 p, w')"
  shows "\<exists>fs. images req = Some fs \<and> 1 \<le> length fs \<and> length fs \<le> 5 \<and>
           hosted_urls env fs = map Some (mainImage p # otherImages p) \<and>
           length (otherImages p) = length fs - 1 \<and>
           products w' = products w @ [p]"
proof -
  from assms obtain fs b where arr: "upload_array 5 (images req) = Inr (Some fs)"
    and b: "multer_body req = Some b" and len: "length fs \<noteq> 0"
    by (auto simp: post_products_def split: sum.splits option.splits if_splits)
  from arr have files: "images req = Some fs" and le: "length fs \<le> 5"
    by (auto dest: upload_array_Inr)
  from assms arr b len obtain r rs where
    all: "Promise_all (upload_promises env fs) = Inr (r # rs)"
    by (auto simp: post_products_def Let_def split: sum.splits list.splits)
  from assms arr b len all obtain ps where
    saved: "save_new validateProduct p (products w) = Inr ps"
    and p: "mainImage p = secure_url r" "otherImages p = map secure_url rs"
    and w': "w' = (issue_uploads ''maison_products'' fs w)\<lparr>products := ps\<rparr>"
    by (auto simp: post_products_def Let_def split: sum.splits)
  from all have "upload_promises env fs = map Inr (r # rs)"
    by (rule Promise_all_Inr)
  then have urls: "hosted_urls env fs = map Some (map secure_url (r # rs))"
    by (rule hosted_urls_fulfilled)
  then have n: "length fs = length (r # rs)"
    by (metis length_map length_upload_promises hosted_urls_promises)
  from saved have "ps = products w @ [p]"
    by (auto dest: save_new_Inr)
  with urls n p w' len le files show ?thesis by simp
qed

lemma post_products_created:
  assumes "images req = Some fs" and "1 \<le> length fs" and "length fs \<le> 5"
    and "body req = Some b"
    and "host_answers env fs = map Some (r # rs)"
    and "required_text (body_name b)" and "required_text (body_category b)"
    and "Number env (body_price b) \<noteq> NaN"
    and "truthy (body_quantity b) \<longrightarrow> Number env (body_quantity b) \<noteq> NaN"
    and "secure_url r \<noteq> []"
    and "findOne (newId env) (products w) = None"
  shows "\<exists>p. post_products env w req =
               (Json 201 p, (issue_uploads ''maison_products'' fs w)\<lparr>products := products w @ [p]\<rparr>) \<and>
             mainImage p = secure_url r \<and> otherImages p = map secure_url rs \<and>
             name p = body_name b \<and> category p = body_category b \<and>
             price p = Number env (body_price b) \<and> description p = body_description b \<and>
             quantity p = (if truthy (body_quantity b) then Number env (body_quantity b)
                           else Finite 0)"
proof -
  from assms(5) have "upload_promises env fs = map Inr (r # rs)"
    by (simp only: host_answers_promises)
  then have all: "Promise_all (upload_promises env fs) = Inr (r # rs)"
    by (simp only: Promise_all_fulfilled)
  from assms(1,4) have b: "multer_body req = Some b"
    by (rule multer_body_files)
  from assms(1-3) have arr: "upload_array 5 (images req) = Inr (Some fs)" and ne: "length fs \<noteq> 0"
    by (auto simp: upload_array_def)
  from arr b ne all assms(6-11) show ?thesis
    by (simp add: post_products_def Let_def save_new_def validateProduct_def insertOne_def)
qed

text \<open>
  \<^bold>\<open>C1.\<close> Take a create request with \<open>N\<close> files, \<open>1 \<le> N \<le> 5\<close>. When the image host answers
  every file (the answers being \<open>r\<close> for the first file and \<open>rs\<close> for the others, in
  submission order), the body passes the schema and the new id is free, the handler
  answers 201 and persists one product, whose \<open>mainImage\<close> is the URL of \<open>r\<close> and whose
  \<open>otherImages\<close> are the URLs of \<open>rs\<close>, \<open>N - 1\<close> of them, in that order. And whatever the
  request, a product the handler persists has as \<open>mainImage\<close> followed by \<open>otherImages\<close>
  exactly the hosted URLs of the files in submission order, and is the one document added
  to the collection.
\<close>

theorem post_products_images:
  assumes "images req = Some fs" and "1 \<le> length fs" and "length fs \<le> 5"
  shows "(body req = Some b \<and> host_answers env fs = map Some (r # rs) \<and>
          required_text (body_name b) \<and> required_text (body_category b) \<and>
          Number env (body_price b) \<noteq> NaN \<and>
          (truthy (body_quantity b) \<longrightarrow> Number env (body_quantity b) \<noteq> NaN) \<and>
          secure_url r \<noteq> [] \<and> findOne (newId env) (products w) = None \<longrightarrow>
            (\<exists>p. post_products env w req =
                    (Json 201 p,
                     (issue_uploads ''maison_products'' fs w)\<lparr>products := products w @ [p]\<rparr>) \<and>
                  mainImage p = secure_url r \<and>
                  otherImages p = map secure_url rs \<and>
                  length (otherImages p) = length fs - 1)) \<and>
         (\<forall>p w'. post_products env w req = (Json 201 p, w') \<longrightarrow>
            hosted_urls env fs = map Some (mainImage p # otherImages p) \<and>
            length (otherImages p) = length fs - 1 \<and>
            products w' = products w @ [p])"
proof (intro conjI impI allI)
  assume ok: "body req = Some b \<and> host_answers env fs = map Some (r # rs) \<and>
          required_text (body_name b) \<and> required_text (body_category b) \<and>
          Number env (body_price b) \<noteq> NaN \<and>
          (truthy (body_quantity b) \<longrightarrow> Number env (body_quantity b) \<noteq> NaN) \<and>
          secure_url r \<noteq> [] \<and> findOne (newId env) (products w) = None"
  then have "host_answers env fs = map Some (r # rs)"
    by simp
  then have "length (host_answers env fs) = length (r # rs)"
    by simp
  then have n: "length rs = length fs - 1"
    by (simp add: host_answers_def)
  from ok assms have "\<exists>p. post_products env w req =
               (Json 201 p, (issue_uploads ''maison_products'' fs w)\<lparr>products := products w @ [p]\<rparr>) \<and>
             mainImage p = secure_url r \<and> otherImages p = map secure_url rs \<and>
             name p = body_name b \<and> category p = body_category b \<and>
             price p = Number env (body_price b) \<and> description p = body_description b \<and>
             quantity p = (if truthy (body_quantity b) then Number env (body_quantity b)
                           else Finite 0)"
    by (intro post_products_created) simp_all
  with n show "\<exists>p. post_products env w req =
                    (Json 201 p,
                     (issue_uploads ''maison_products'' fs w)\<lparr>products := products w @ [p]\<rparr>) \<and>
                  mainImage p = secure_url r \<and>
                  otherImages p = map secure_url rs \<and>
                  length (otherImages p) = length fs - 1"
    by auto
next
  fix p w'
  assume "post_products env w req = (Json 201 p, w')"
  from post_products_persisted [OF this] assms(1)
  show "hosted_urls env fs = map Some (mainImage p # otherImages p)"
    and "length (otherImages p) = length fs - 1"
    and "products w' = products w @ [p]"
    by auto
qed

theorem post_products_images_witness:
  "images form0 = Some [photo ''t0'', photo ''t1'', photo ''t2''] \<and>
   body form0 = Some fields0 \<and>
   host_answers env0 [photo ''t0'', photo ''t1'', photo ''t2''] =
     [Some \<lparr> public_id = ''maison_products/t0'',
             secure_url = ''https://img.test/maison_products/t0'' \<rparr>,
      Some \<lparr> public_id = ''maison_products/t1'',
             secure_url = ''https://img.test/maison_products/t1'' \<rparr>,
      Some \<lparr> public_id = ''maison_products/t2'',
             secure_url = ''https://img.test/maison_products/t2'' \<rparr>] \<and>
   post_products env0 world0 form0 =
     (Json 201 table,
      world0\<lparr> products := [chair, lamp, table],
               uploads := [(''maison_products'', ''t0''), (''maison_products'', ''t1''),
                           (''maison_products'', ''t2'')] \<rparr>) \<and>
   mainImage table = ''https://img.test/maison_products/t0'' \<and>
   otherImages table = [''https://img.test/maison_products/t1'',
                        ''https://img.test/maison_products/t2''] \<and>
   hosted_urls env0 [photo ''t0'', photo ''t1'', photo ''t2''] =
     map Some (mainImage table # otherImages table)"
proof -
  let ?fs = "[photo ''t0'', photo ''t1'', photo ''t2'']"
  let ?r = "\<lparr> public_id = ''maison_products/t0'',
             secure_url = ''https://img.test/maison_products/t0'' \<rparr>"
  let ?rs = "[\<lparr> public_id = ''maison_products/t1'',
               secure_url = ''https://img.test/maison_products/t1'' \<rparr>,
             \<lparr> public_id = ''maison_products/t2'',
               secure_url = ''https://img.test/maison_products/t2'' \<rparr>]"
  have files: "images form0 = Some ?fs"
    by (simp add: form0_def)
  have n: "1 \<le> length ?fs" "length ?fs \<le> 5"
    by simp_all
  have b: "body form0 = Some fields0"
    by (simp add: form0_def)
  have answers: "host_answers env0 ?fs = map Some (?r # ?rs)"
    by (simp add: host_answers_def env0_def sample_host_def photo_def)
  have valid: "required_text (body_name fields0)" "required_text (body_category fields0)"
    "Number env0 (body_price fields0) \<noteq> NaN"
    "truthy (body_quantity fields0) \<longrightarrow> Number env0 (body_quantity fields0) \<noteq> NaN"
    "secure_url ?r \<noteq> []"
    by (simp_all add: required_text_def fields0_def Number_def env0_def digit_value_def)
  have fresh: "findOne (newId env0) (products world0) = None"
    by (simp add: env0_def world0_def chair_def lamp_def)
  note inst = post_products_images [OF files n, of fields0 env0 ?r ?rs world0]
  from inst b answers valid fresh obtain p where
    p: "post_products env0 world0 form0 =
          (Json 201 p, (issue_uploads ''maison_products'' ?fs world0)\<lparr>products := products world0 @ [p]\<rparr>)"
    and images: "mainImage p = secure_url ?r" "otherImages p = map secure_url ?rs"
    by blast
  have answer: "post_products env0 world0 form0 =
     (Json 201 table,
      world0\<lparr> products := [chair, lamp, table],
               uploads := [(''maison_products'', ''t0''), (''maison_products'', ''t1''),
                           (''maison_products'', ''t2'')] \<rparr>)"
    by (simp add: post_products_def handler_defs sample_defs)
  with p have "p = table"
    by simp
  with images have main: "mainImage table = ''https://img.test/maison_products/t0''"
    and others: "otherImages table = [''https://img.test/maison_products/t1'',
                        ''https://img.test/maison_products/t2'']"
    by simp_all
  from inst answer have urls: "hosted_urls env0 ?fs = map Some (mainImage table # otherImages table)"
    by blast
  from files b answers answer main others urls show ?thesis
    by simp
qed

section \<open>A create request without files\<close>

text \<open>A create request without files is answered 400, with the world unchanged, when the
  handler finds a body. When it finds none, reading the fields throws before the files are
  looked at, and the answer is 500. The hero image handler looks at the file first and
  answers 400 to any request without one.\<close>

lemma post_products_no_files:
  assumes "images req = None \<or> images req = Some []" and "multer_body req = Some b"
  shows "post_products env w req = (Error 400 ''No images uploaded'', w)"
  using assms by (auto simp: post_products_def upload_array_def)

lemma post_products_no_body:
  assumes "images req = None" and "body req = None"
  shows "post_products env w req = (Error 500 ''Server error'', w)"
  using assms by (simp add: post_products_def upload_array_def multer_body_def)

lemma post_hero_images_no_file:
  assumes "image req = None \<or> image req = Some []"
  shows "post_hero_images env w req = (Error 400 ''No image uploaded'', w)"
  using assms by (auto simp: post_hero_images_def)

text \<open>
  \<^bold>\<open>C2.\<close> A create request with zero image files should be answered 400, with nothing
  persisted and nothing uploaded. The handler does so only when \<^verbatim>\<open>req.body\<close> is defined:
  the request below has no files and no body, and is answered 500. Nothing is persisted
  and nothing is uploaded there either.
\<close>

theorem post_products_bare_request:
  "images bare_request = None \<and>
   body bare_request = None \<and>
   post_products env0 world0 bare_request = (Error 500 ''Server error'', world0) \<and>
   status (fst (post_products env0 world0 bare_request)) \<noteq> 400"
  by (simp add: post_products_def upload_array_def multer_body_def bare_request_def)

section \<open>A failed upload\<close>

lemma post_products_rejected:
  assumes "images req = Some fs" and "Promise_all (upload_promises env fs) = Inl e"
  shows "status (fst (post_products env w req)) = 500 \<and>
         products (snd (post_products env w req)) = products w \<and>
         heroes (snd (post_products env w req)) = heroes w"
proof (cases "upload_array 5 (images req)")
  case (Inl a)
  then show ?thesis by (simp add: post_products_def)
next
  case (Inr files)
  with assms(1) have files: "files = Some fs"
    by (auto dest: upload_array_Inr)
  from assms(1) obtain b where b: "multer_body req = Some b"
    using multer_body_form by blast
  from assms(2) have "fs \<noteq> []"
    by (auto simp: upload_promises_def)
  with Inr files b assms(2) show ?thesis
    by (simp add: post_products_def Let_def)
qed

lemma put_product_rejected:
  assumes "images req = Some fs" and "Promise_all (upload_promises env fs) = Inl e"
  shows "status (fst (put_product env w ident req)) = 500 \<and>
         products (snd (put_product env w ident req)) = products w \<and>
         heroes (snd (put_product env w ident req)) = heroes w"
proof (cases "upload_array 5 (images req)")
  case (Inl a)
  then show ?thesis by (simp add: put_product_def)
next
  case (Inr files)
  with assms(1) have files: "files = Some fs"
    by (auto dest: upload_array_Inr)
  from assms(1) obtain b where b: "multer_body req = Some b"
    using multer_body_form by blast
  from assms(2) have "fs \<noteq> []"
    by (auto simp: upload_promises_def)
  with Inr files b assms(2) show ?thesis
    by (simp add: put_product_def Let_def)
qed

text \<open>
  \<^bold>\<open>C3.\<close> When the image host answers the upload of one of the files of a create or
  update request with an error, the request is answered 500 and both collections are
  what they were: no product is created and none is modified.
\<close>

theorem failed_upload_aborts:
  assumes "images req = Some fs"
    and "i < length fs"
    and "upload_stream env i ''maison_products'' (buffer (fs ! i)) = None"
  shows "status (fst (post_products env w req)) = 500 \<and>
         products (snd (post_products env w req)) = products w \<and>
         heroes (snd (post_products env w req)) = heroes w \<and>
         status (fst (put_product env w ident req)) = 500 \<and>
         products (snd (put_product env w ident req)) = products w \<and>
         heroes (snd (put_product env w ident req)) = heroes w"
proof -
  from assms(2,3) have "Inl UploadError \<in> set (upload_promises env fs)"
    by (rule upload_promises_failed)
  then obtain e where "Promise_all (upload_promises env fs) = Inl e"
    using Promise_all_rejected by blast
  with assms(1) show ?thesis
    using post_products_rejected [of req fs env e w] put_product_rejected [of req fs env e w ident]
    by simp
qed

theorem failed_upload_aborts_witness:
  "images form_bad = Some [photo ''t0'', photo []] \<and>
   upload_stream env0 1 ''maison_products'' (buffer ([photo ''t0'', photo []] ! 1)) = None \<and>
   status (fst (post_products env0 world0 form_bad)) = 500 \<and>
   products (snd (post_products env0 world0 form_bad)) = [chair, lamp] \<and>
   heroes (snd (post_products env0 world0 form_bad)) = [banner, poster] \<and>
   status (fst (put_product env0 world0 ''0000000000000000000000a1'' form_bad)) = 500 \<and>
   products (snd (put_product env0 world0 ''0000000000000000000000a1'' form_bad)) = [chair, lamp] \<and>
   heroes (snd (put_product env0 world0 ''0000000000000000000000a1'' form_bad)) = [banner, poster]"
proof -
  have files: "images form_bad = Some [photo ''t0'', photo []]"
    by (simp add: form_bad_def)
  have i: "(1::nat) < length [photo ''t0'', photo []]"
    by simp
  have refused:
    "upload_stream env0 1 ''maison_products'' (buffer ([photo ''t0'', photo []] ! 1)) = None"
    by (simp add: env0_def sample_host_def photo_def)
  from failed_upload_aborts [OF files i refused, of world0 "''0000000000000000000000a1''"]
    files refused
  show ?thesis by (simp add: world0_def)
qed

section \<open>An invariant of the hero images\<close>

text \<open>The three routes that write hero images keep every stored hero image valid for its
  schema (the product routes do not touch them), so a hero image found in the collection
  has an \<open>imageUrl\<close>.\<close>

lemma heroes_valid_post_hero_images:
  assumes "heroes_valid w"
  shows "heroes_valid (snd (post_hero_images env w req))"
proof (cases "post_hero_images env w req")
  case (Pair res w')
  show ?thesis
  proof (cases "\<exists>h. res = Json 201 h")
    case True
    then obtain h where "post_hero_images env w req = (Json 201 h, w')"
      using Pair by blast
    then obtain f result hs where
      "save_new validateHeroImage h (heroes w) = Inr hs" "w' = (issue_uploads ''maison_hero'' [f] w)\<lparr>heroes := hs\<rparr>"
      by (auto simp: post_hero_images_def Let_def split: sum.splits option.splits)
    with assms Pair show ?thesis
      by (auto simp: heroes_valid_def dest: save_new_Inr)
  next
    case False
    with Pair have "heroes w' = heroes w"
      by (auto simp: post_hero_images_def Let_def split: sum.splits option.splits)
    with assms Pair show ?thesis
      by (simp add: heroes_valid_def)
  qed
qed

lemma heroes_valid_patch_hero_toggle:
  assumes "heroes_valid w"
  shows "heroes_valid (snd (patch_hero_toggle env w ident))"
  using assms
  by (auto simp: patch_hero_toggle_def findById_def save_modified_def heroes_valid_def Let_def
      validateHeroImage_def intro!: list_all_updateOne split: option.splits)

lemma heroes_valid_delete_hero_image:
  assumes "heroes_valid w"
  shows "heroes_valid (snd (delete_hero_image env w ident))"
  using assms
  by (auto simp: delete_hero_image_def findByIdAndDelete_def heroes_valid_def
      intro!: list_all_deleteOne split: option.splits)

lemma heroes_valid_found:
  "heroes_valid w \<Longrightarrow> findOne k (heroes w) = Some h \<Longrightarrow> imageUrl h \<noteq> []"
  using findOne_list_all [of validateHeroImage "heroes w" k h]
  by (simp add: heroes_valid_def validateHeroImage_def)

section \<open>Toggling a hero image\<close>




text \<open>
  \<^bold>\<open>C5\<close> (as amended). A toggle whose id is an object id that no stored hero image has is
  answered 404 and leaves the world as it was. A toggle whose id is no object id at all
  is answered 500, the lookup having thrown, and leaves the world as it was too.
\<close>

theorem toggle_unknown_id:
  "(castObjectId env ident = Some k \<and> findOne k (heroes w) = None \<longrightarrow>
      patch_hero_toggle env w ident = (Error 404 ''Hero image not found'', w)) \<and>
   (castObjectId env ident = None \<longrightarrow>
      patch_hero_toggle env w ident = (Error 500 ''Server error'', w))"
  by (simp add: patch_hero_toggle_def findById_def)

theorem toggle_unknown_id_witness:
  "castObjectId env0 ''0000000000000000000000b9'' = Some ''0000000000000000000000b9'' \<and>
   findOne ''0000000000000000000000b9'' (heroes world0) = None \<and>
   patch_hero_toggle env0 world0 ''0000000000000000000000b9'' =
     (Error 404 ''Hero image not found'', world0) \<and>
   castObjectId env0 ''abc'' = None \<and>
   patch_hero_toggle env0 world0 ''abc'' = (Error 500 ''Server error'', world0)"
proof -
  have c: "castObjectId env0 ''0000000000000000000000b9'' = Some ''0000000000000000000000b9''"
    by (simp add: env0_def hexObjectId_def lower_hex_def)
  have f: "findOne ''0000000000000000000000b9'' (heroes world0) = None"
    by (simp add: world0_def banner_def poster_def)
  have n: "castObjectId env0 ''abc'' = None"
    by (simp add: env0_def hexObjectId_def)
  from toggle_unknown_id [of env0 "''0000000000000000000000b9''" "''0000000000000000000000b9''" world0]
    toggle_unknown_id [of env0 "''abc''" "''abc''" world0] c f n
  show ?thesis by simp
qed

text \<open>The claim as stated, that every toggle whose id matches no stored hero image is
  answered 404, fails for the id \<^verbatim>\<open>abc\<close>: no hero image has it, and the answer is 500.\<close>

theorem toggle_unknown_id_counterexample:
  "''abc'' \<notin> doc_id ` set (heroes world0) \<and>
   castObjectId env0 ''abc'' = None \<and>
   patch_hero_toggle env0 world0 ''abc'' = (Error 500 ''Server error'', world0) \<and>
   status (fst (patch_hero_toggle env0 world0 ''abc'')) \<noteq> 404"
  by (simp add: patch_hero_toggle_def findById_def env0_def hexObjectId_def world0_def
      banner_def poster_def)

text \<open>
  \<^bold>\<open>C10\<close> (as amended). A successful toggle changes, in the record it finds, the field
  \<open>isActive\<close> and the timestamp \<open>updatedAt\<close>, which the store sets to the time of the save.
  Its \<open>imageUrl\<close>, its id and its \<open>createdAt\<close> are unchanged; the hero images before and
  after it in the collection, all products and the uploads are unchanged.
\<close>

theorem toggle_frame:
  assumes "patch_hero_toggle env w ident = (Json 200 h', w')"
  shows "\<exists>k h ys zs.
           castObjectId env ident = Some k \<and>
           findOne k (heroes w) = Some h \<and>
           h' = h\<lparr>isActive := \<not> isActive h, updatedAt := now env\<rparr> \<and>
           imageUrl h' = imageUrl h \<and> doc_id h' = doc_id h \<and> createdAt h' = createdAt h \<and>
           heroes w = ys @ h # zs \<and> heroes w' = ys @ h' # zs \<and>
           products w' = products w \<and> uploads w' = uploads w"
proof -
  from assms obtain k where k: "castObjectId env ident = Some k"
    by (auto simp: patch_hero_toggle_def findById_def split: option.splits)
  with assms obtain h where h: "findOne k (heroes w) = Some h"
    by (auto simp: patch_hero_toggle_def findById_def split: option.splits)
  from h have id: "doc_id h = k"
    by (rule findOne_Some_id)
  from assms k h id have h': "h' = h\<lparr>isActive := \<not> isActive h, updatedAt := now env\<rparr>"
    and w': "w' = w\<lparr>heroes := updateOne k h' (heroes w)\<rparr>"
    by (auto simp: patch_hero_toggle_def findById_def save_modified_def Let_def split: if_splits)
  from findOne_split [OF h, of h'] obtain ys zs where
    "heroes w = ys @ h # zs" "updateOne k h' (heroes w) = ys @ h' # zs"
    by blast
  with w' have split: "heroes w = ys @ h # zs" "heroes w' = ys @ h' # zs"
    by simp_all
  from h' have same: "imageUrl h' = imageUrl h" "doc_id h' = doc_id h" "createdAt h' = createdAt h"
    by simp_all
  from w' have rest: "products w' = products w" "uploads w' = uploads w"
    by simp_all
  from k h h' same split rest show ?thesis by blast
qed

theorem toggle_frame_witness:
  "patch_hero_toggle env0 world0 ''0000000000000000000000b1'' =
     (Json 200 banner_on, world0\<lparr>heroes := [banner_on, poster]\<rparr>) \<and>
   findOne ''0000000000000000000000b1'' (heroes world0) = Some banner \<and>
   banner_on = banner\<lparr>isActive := \<not> isActive banner, updatedAt := now env0\<rparr> \<and>
   imageUrl banner_on = imageUrl banner \<and>
   doc_id banner_on = doc_id banner \<and>
   createdAt banner_on = createdAt banner \<and>
   products (world0\<lparr>heroes := [banner_on, poster]\<rparr>) = products world0"
proof -
  have answer: "patch_hero_toggle env0 world0 ''0000000000000000000000b1'' =
     (Json 200 banner_on, world0\<lparr>heroes := [banner_on, poster]\<rparr>)"
    by (simp add: patch_hero_toggle_def findById_def save_modified_def validateHeroImage_def
        env0_def hexObjectId_def lower_hex_def world0_def banner_def poster_def banner_on_def
        Let_def)
  have c: "castObjectId env0 ''0000000000000000000000b1'' = Some ''0000000000000000000000b1''"
    by (simp add: env0_def hexObjectId_def lower_hex_def)
  have f: "findOne ''0000000000000000000000b1'' (heroes world0) = Some banner"
    by (simp add: world0_def banner_def)
  from toggle_frame [OF answer] c f answer show ?thesis
    by auto
qed

text \<open>The claim as stated, that only \<open>isActive\<close> is modified, fails on the sample state:
  the record after the toggle is not the record before it with \<open>isActive\<close> negated, since
  \<open>updatedAt\<close> went from 1200 to 2000.\<close>

theorem toggle_frame_counterexample:
  "patch_hero_toggle env0 world0 ''0000000000000000000000b1'' =
     (Json 200 banner_on, world0\<lparr>heroes := [banner_on, poster]\<rparr>) \<and>
   findOne ''0000000000000000000000b1'' (heroes world0) = Some banner \<and>
   banner_on \<noteq> banner\<lparr>isActive := \<not> isActive banner\<rparr> \<and>
   updatedAt banner = 1200 \<and> updatedAt banner_on = 2000"
  by (simp add: patch_hero_toggle_def findById_def save_modified_def validateHeroImage_def
      env0_def hexObjectId_def lower_hex_def world0_def banner_def poster_def banner_on_def
        Let_def)

section \<open>Creating a hero image\<close>

lemma post_hero_images_persisted:
  assumes "post_hero_images env w req = (Json 201 h, w')"
  shows "isActive h = (body_isActive req = JString ''true'' \<or> body_isActive req = JBool True) \<and>
         (\<exists>f. image req = Some [f]) \<and>
         heroes w' = heroes w @ [h]"
proof -
  from assms obtain f where single: "upload_single (image req) = Inr (Some f)"
    by (auto simp: post_hero_images_def split: sum.splits option.splits)
  then have one: "image req = Some [f]"
    by (cases "image req" rule: upload_single.cases) simp_all
  from assms single obtain result where
    up: "uploadHeroToCloudinary env 0 (buffer f) = Inr result"
    by (auto simp: post_hero_images_def Let_def split: sum.splits)
  from assms single up obtain hs where
    saved: "save_new validateHeroImage h (heroes w) = Inr hs"
    and act: "isActive h = (body_isActive req = JString ''true'' \<or> body_isActive req = JBool True)"
    and w': "w' = (issue_uploads ''maison_hero'' [f] w)\<lparr>heroes := hs\<rparr>"
    by (auto simp: post_hero_images_def Let_def split: sum.splits)
  from saved have "hs = heroes w @ [h]"
    by (auto dest: save_new_Inr)
  with act one w' show ?thesis by auto
qed

lemma post_hero_images_created:
  assumes "image req = Some [f]"
    and "upload_stream env 0 ''maison_hero'' (buffer f) = Some r"
    and "secure_url r \<noteq> []"
    and "findOne (newId env) (heroes w) = None"
  shows "post_hero_images env w req =
           (Json 201
              \<lparr> doc_id = newId env, createdAt = now env, updatedAt = now env,
                imageUrl = secure_url r,
                isActive = (body_isActive req = JString ''true'' \<or> body_isActive req = JBool True) \<rparr>,
            (issue_uploads ''maison_hero'' [f] w)
              \<lparr>heroes := heroes w @
                 [\<lparr> doc_id = newId env, createdAt = now env, updatedAt = now env,
                    imageUrl = secure_url r,
                    isActive = (body_isActive req = JString ''true'' \<or>
                                body_isActive req = JBool True) \<rparr>]\<rparr>)"
  using assms
  by (simp add: post_hero_images_def uploadHeroToCloudinary_def Let_def save_new_def
      validateHeroImage_def insertOne_def)

text \<open>
  \<^bold>\<open>C7.\<close> Take a hero image request with exactly one file. When the image host answers
  the file with a URL and the new id is free, the handler answers 201 and persists one
  hero image, whose \<open>isActive\<close> is true exactly when the submitted value is the text
  \<^verbatim>\<open>"true"\<close> or the boolean \<^verbatim>\<open>true\<close>, and false for every other value, an omitted field
  included. And whatever the request, a hero image the handler persists has that value of
  \<open>isActive\<close> and is the one document added to the collection.
\<close>

theorem post_hero_images_isActive:
  assumes "image req = Some [f]"
  shows "(upload_stream env 0 ''maison_hero'' (buffer f) = Some r \<and> secure_url r \<noteq> [] \<and>
          findOne (newId env) (heroes w) = None \<longrightarrow>
            (\<exists>h. post_hero_images env w req =
                    (Json 201 h, (issue_uploads ''maison_hero'' [f] w)\<lparr>heroes := heroes w @ [h]\<rparr>) \<and>
                  imageUrl h = secure_url r \<and>
                  isActive h = (body_isActive req = JString ''true'' \<or>
                                body_isActive req = JBool True))) \<and>
         (\<forall>h w'. post_hero_images env w req = (Json 201 h, w') \<longrightarrow>
            isActive h = (body_isActive req = JString ''true'' \<or> body_isActive req = JBool True) \<and>
            heroes w' = heroes w @ [h])"
proof (intro conjI impI allI)
  assume "upload_stream env 0 ''maison_hero'' (buffer f) = Some r \<and> secure_url r \<noteq> [] \<and>
          findOne (newId env) (heroes w) = None"
  with assms show "\<exists>h. post_hero_images env w req =
                    (Json 201 h, (issue_uploads ''maison_hero'' [f] w)\<lparr>heroes := heroes w @ [h]\<rparr>) \<and>
                  imageUrl h = secure_url r \<and>
                  isActive h = (body_isActive req = JString ''true'' \<or>
                                body_isActive req = JBool True)"
    by (simp add: post_hero_images_created)
next
  fix h w'
  assume "post_hero_images env w req = (Json 201 h, w')"
  from post_hero_images_persisted [OF this]
  show "isActive h = (body_isActive req = JString ''true'' \<or> body_isActive req = JBool True)"
    and "heroes w' = heroes w @ [h]"
    by simp_all
qed

lemma post_hero_images_sample:
  "post_hero_images env0 world0 (hero_form v) =
     (Json 201 (slide (v = JString ''true'' \<or> v = JBool True)),
      world0\<lparr> heroes := [banner, poster, slide (v = JString ''true'' \<or> v = JBool True)],
               uploads := [(''maison_hero'', ''h2'')] \<rparr>)"
  by (simp add: post_hero_images_def hero_form_def slide_def handler_defs sample_defs)

theorem post_hero_images_isActive_witness:
  "image (hero_form (JBool True)) = Some [photo ''h2''] \<and>
   upload_stream env0 0 ''maison_hero'' (buffer (photo ''h2'')) =
     Some \<lparr> public_id = ''maison_hero/h2'', secure_url = ''https://img.test/maison_hero/h2'' \<rparr> \<and>
   findOne (newId env0) (heroes world0) = None \<and>
   post_hero_images env0 world0 (hero_form (JString ''true'')) =
     (Json 201 (slide True),
      world0\<lparr> heroes := [banner, poster, slide True], uploads := [(''maison_hero'', ''h2'')] \<rparr>) \<and>
   post_hero_images env0 world0 (hero_form (JBool True)) =
     (Json 201 (slide True),
      world0\<lparr> heroes := [banner, poster, slide True], uploads := [(''maison_hero'', ''h2'')] \<rparr>) \<and>
   post_hero_images env0 world0 (hero_form JUndefined) =
     (Json 201 (slide False),
      world0\<lparr> heroes := [banner, poster, slide False], uploads := [(''maison_hero'', ''h2'')] \<rparr>) \<and>
   post_hero_images env0 world0 (hero_form (JString ''false'')) =
     (Json 201 (slide False),
      world0\<lparr> heroes := [banner, poster, slide False], uploads := [(''maison_hero'', ''h2'')] \<rparr>) \<and>
   post_hero_images env0 world0 (hero_form (JBool False)) =
     (Json 201 (slide False),
      world0\<lparr> heroes := [banner, poster, slide False], uploads := [(''maison_hero'', ''h2'')] \<rparr>) \<and>
   isActive (slide True) = True \<and> isActive (slide False) = False"
proof -
  let ?r = "\<lparr> public_id = ''maison_hero/h2'', secure_url = ''https://img.test/maison_hero/h2'' \<rparr>"
  have one: "image (hero_form v) = Some [photo ''h2'']" for v
    by (simp add: hero_form_def)
  have up: "upload_stream env0 0 ''maison_hero'' (buffer (photo ''h2'')) = Some ?r"
    by (simp add: env0_def sample_host_def photo_def)
  have url: "secure_url ?r \<noteq> []"
    by simp
  have fresh: "findOne (newId env0) (heroes world0) = None"
    by (simp add: env0_def world0_def banner_def poster_def)
  have s1: "post_hero_images env0 world0 (hero_form (JString ''true'')) =
     (Json 201 (slide True),
      world0\<lparr> heroes := [banner, poster, slide True], uploads := [(''maison_hero'', ''h2'')] \<rparr>)"
    using post_hero_images_sample [of "JString ''true''"] by simp
  have s2: "post_hero_images env0 world0 (hero_form (JBool True)) =
     (Json 201 (slide True),
      world0\<lparr> heroes := [banner, poster, slide True], uploads := [(''maison_hero'', ''h2'')] \<rparr>)"
    using post_hero_images_sample [of "JBool True"] by simp
  have s3: "post_hero_images env0 world0 (hero_form JUndefined) =
     (Json 201 (slide False),
      world0\<lparr> heroes := [banner, poster, slide False], uploads := [(''maison_hero'', ''h2'')] \<rparr>)"
    using post_hero_images_sample [of JUndefined] by simp
  have s4: "post_hero_images env0 world0 (hero_form (JString ''false'')) =
     (Json 201 (slide False),
      world0\<lparr> heroes := [banner, poster, slide False], uploads := [(''maison_hero'', ''h2'')] \<rparr>)"
    using post_hero_images_sample [of "JString ''false''"] by simp
  have s5: "post_hero_images env0 world0 (hero_form (JBool False)) =
     (Json 201 (slide False),
      world0\<lparr> heroes := [banner, poster, slide False], uploads := [(''maison_hero'', ''h2'')] \<rparr>)"
    using post_hero_images_sample [of "JBool False"] by simp
  from post_hero_images_isActive [OF one [of "JBool True"], of env0 ?r world0] up url fresh
  obtain h where
    h: "post_hero_images env0 world0 (hero_form (JBool True)) =
          (Json 201 h, (issue_uploads ''maison_hero'' [photo ''h2''] world0)
                         \<lparr>heroes := heroes world0 @ [h]\<rparr>)"
    and act: "isActive h = (body_isActive (hero_form (JBool True)) = JString ''true'' \<or>
                            body_isActive (hero_form (JBool True)) = JBool True)"
    by blast
  from h s2 have "h = slide True"
    by simp
  with act have on: "isActive (slide True) = True"
    by (simp add: hero_form_def)
  from post_hero_images_isActive [OF one [of JUndefined], of env0 ?r world0] s3
  have "isActive (slide False) =
      (body_isActive (hero_form JUndefined) = JString ''true'' \<or>
       body_isActive (hero_form JUndefined) = JBool True)"
    by blast
  then have off: "isActive (slide False) = False"
    by (simp add: hero_form_def)
  from one [of "JBool True"] up fresh s1 s2 s3 s4 s5 on off show ?thesis
    by blast
qed

section \<open>Listing\<close>

lemma find_sort_createdAt_desc_all:
  "\<exists>xs. find_sort_createdAt_desc ds = Inr xs \<and> mset xs = mset ds \<and> newest_first xs"
proof -
  have "sorted (map createdAt (sort_key createdAt ds))"
    by (rule sorted_sort_key)
  then have "sorted_wrt (\<lambda>a b. createdAt a \<le> createdAt b) (sort_key createdAt ds)"
    by (simp add: sorted_map)
  then have "newest_first (rev (sort_key createdAt ds))"
    by (simp add: newest_first_def sorted_wrt_rev)
  moreover have "mset (rev (sort_key createdAt ds)) = mset ds"
    by simp
  ultimately show ?thesis
    by (simp add: find_sort_createdAt_desc_def)
qed

text \<open>
  \<^bold>\<open>C8.\<close> In every state, listing the products answers 200 with all stored products
  (the same documents with the same multiplicities, so none is filtered out and none is
  cut off) ordered by \<open>createdAt\<close>, newest first, and leaves the world unchanged; listing
  the hero images does the same for the hero images.
\<close>

theorem listings_newest_first:
  "\<exists>ps hs. get_products w = (Json 200 ps, w) \<and> mset ps = mset (products w) \<and> newest_first ps \<and>
           length ps = length (products w) \<and>
           get_hero_images w = (Json 200 hs, w) \<and> mset hs = mset (heroes w) \<and> newest_first hs \<and>
           length hs = length (heroes w)"
proof -
  from find_sort_createdAt_desc_all [of "products w"] obtain ps where
    ps: "find_sort_createdAt_desc (products w) = Inr ps" "mset ps = mset (products w)" "newest_first ps"
    by blast
  from find_sort_createdAt_desc_all [of "heroes w"] obtain hs where
    hs: "find_sort_createdAt_desc (heroes w) = Inr hs" "mset hs = mset (heroes w)" "newest_first hs"
    by blast
  from ps(2) hs(2) have "length ps = length (products w)" "length hs = length (heroes w)"
    by (metis size_mset)+
  moreover from ps(1) hs(1) have "get_products w = (Json 200 ps, w)" "get_hero_images w = (Json 200 hs, w)"
    by (simp_all add: get_products_def get_hero_images_def)
  ultimately show ?thesis
    using ps(2,3) hs(2,3) by blast
qed

theorem listings_newest_first_witness:
  "get_products world0 = (Json 200 [lamp, chair], world0) \<and>
   get_hero_images world0 = (Json 200 [poster, banner], world0) \<and>
   newest_first [lamp, chair] \<and> newest_first [poster, banner]"
proof -
  have p: "get_products world0 = (Json 200 [lamp, chair], world0)"
    by (simp add: get_products_def find_sort_createdAt_desc_def world0_def chair_def lamp_def
        sort_key_def)
  have h: "get_hero_images world0 = (Json 200 [poster, banner], world0)"
    by (simp add: get_hero_images_def find_sort_createdAt_desc_def world0_def banner_def poster_def
        sort_key_def)
  from listings_newest_first [of world0] p h show ?thesis
    by auto
qed

section \<open>Deleting\<close>

text \<open>
  \<^bold>\<open>C9\<close> (as amended). A delete request whose id is an object id is answered 200 with
  the success message, for products and for hero images, and removes the document with
  that id; when no stored document has the id, the world is unchanged and the answer is
  the same. A delete request whose id is no object id at all is answered 500, the query
  having thrown, and leaves the world unchanged.
\<close>

theorem delete_by_id:
  "(castObjectId env ident = Some k \<longrightarrow>
      delete_product env w ident =
        (Message 200 ''Product deleted'', w\<lparr>products := deleteOne k (products w)\<rparr>) \<and>
      delete_hero_image env w ident =
        (Message 200 ''Hero image deleted'', w\<lparr>heroes := deleteOne k (heroes w)\<rparr>)) \<and>
   (castObjectId env ident = Some k \<and> findOne k (products w) = None \<longrightarrow>
      delete_product env w ident = (Message 200 ''Product deleted'', w)) \<and>
   (castObjectId env ident = Some k \<and> findOne k (heroes w) = None \<longrightarrow>
      delete_hero_image env w ident = (Message 200 ''Hero image deleted'', w)) \<and>
   (castObjectId env ident = None \<longrightarrow>
      delete_product env w ident = (Error 500 ''Server error'', w) \<and>
      delete_hero_image env w ident = (Error 500 ''Server error'', w))"
  by (simp add: delete_product_def delete_hero_image_def findByIdAndDelete_def deleteOne_absent)

theorem delete_by_id_witness:
  "castObjectId env0 ''0000000000000000000000a2'' = Some ''0000000000000000000000a2'' \<and>
   delete_product env0 world0 ''0000000000000000000000a2'' =
     (Message 200 ''Product deleted'', world0\<lparr>products := [chair]\<rparr>) \<and>
   castObjectId env0 ''0000000000000000000000a9'' = Some ''0000000000000000000000a9'' \<and>
   findOne ''0000000000000000000000a9'' (products world0) = None \<and>
   findOne ''0000000000000000000000a9'' (heroes world0) = None \<and>
   delete_product env0 world0 ''0000000000000000000000a9'' =
     (Message 200 ''Product deleted'', world0) \<and>
   delete_hero_image env0 world0 ''0000000000000000000000a9'' =
     (Message 200 ''Hero image deleted'', world0) \<and>
   castObjectId env0 ''abc'' = None \<and>
   delete_product env0 world0 ''abc'' = (Error 500 ''Server error'', world0) \<and>
   delete_hero_image env0 world0 ''abc'' = (Error 500 ''Server error'', world0)"
proof -
  have present: "castObjectId env0 ''0000000000000000000000a2'' = Some ''0000000000000000000000a2''"
    by (simp add: env0_def hexObjectId_def lower_hex_def)
  have absent: "castObjectId env0 ''0000000000000000000000a9'' = Some ''0000000000000000000000a9''"
    by (simp add: env0_def hexObjectId_def lower_hex_def)
  have nop: "findOne ''0000000000000000000000a9'' (products world0) = None"
    by (simp add: world0_def chair_def lamp_def)
  have noh: "findOne ''0000000000000000000000a9'' (heroes world0) = None"
    by (simp add: world0_def banner_def poster_def)
  have malformed: "castObjectId env0 ''abc'' = None"
    by (simp add: env0_def hexObjectId_def)
  have gone: "deleteOne ''0000000000000000000000a2'' (products world0) = [chair]"
    by (simp add: world0_def chair_def lamp_def)
  from delete_by_id [of env0 "''0000000000000000000000a2''" "''0000000000000000000000a2''" world0]
    present
  have "delete_product env0 world0 ''0000000000000000000000a2'' =
     (Message 200 ''Product deleted'',
      world0\<lparr>products := deleteOne ''0000000000000000000000a2'' (products world0)\<rparr>)"
    by blast
  with gone have d1: "delete_product env0 world0 ''0000000000000000000000a2'' =
     (Message 200 ''Product deleted'', world0\<lparr>products := [chair]\<rparr>)"
    by simp
  from delete_by_id [of env0 "''0000000000000000000000a9''" "''0000000000000000000000a9''" world0]
    absent nop noh
  have d2: "delete_product env0 world0 ''0000000000000000000000a9'' =
     (Message 200 ''Product deleted'', world0)"
    and d3: "delete_hero_image env0 world0 ''0000000000000000000000a9'' =
     (Message 200 ''Hero image deleted'', world0)"
    by blast+
  from delete_by_id [of env0 "''abc''" "''abc''" world0] malformed
  have d4: "delete_product env0 world0 ''abc'' = (Error 500 ''Server error'', world0)"
    and d5: "delete_hero_image env0 world0 ''abc'' = (Error 500 ''Server error'', world0)"
    by blast+
  from present d1 absent nop noh d2 d3 malformed d4 d5 show ?thesis
    by blast
qed

text \<open>The claim as stated, that every delete request is answered 200, fails for the id
  \<^verbatim>\<open>abc\<close>, which no stored document has: both delete routes answer 500.\<close>

theorem delete_by_id_counterexample:
  "''abc'' \<notin> doc_id ` set (products world0) \<and>
   ''abc'' \<notin> doc_id ` set (heroes world0) \<and>
   delete_product env0 world0 ''abc'' = (Error 500 ''Server error'', world0) \<and>
   status (fst (delete_product env0 world0 ''abc'')) \<noteq> 200 \<and>
   delete_hero_image env0 world0 ''abc'' = (Error 500 ''Server error'', world0) \<and>
   status (fst (delete_hero_image env0 world0 ''abc'')) \<noteq> 200"
  by (simp add: delete_product_def delete_hero_image_def findByIdAndDelete_def env0_def
      hexObjectId_def world0_def chair_def lamp_def banner_def poster_def)

section \<open>Updating a product without files\<close>

text \<open>What the update handler does with a request without files: the images of every
  stored product stay as they are; when the id is the object id of a stored product and
  the texts of \<open>price\<close> and \<open>quantity\<close> both convert to numbers other than \<^verbatim>\<open>NaN\<close>, the
  product is updated with the fields supplied; when the id is no object id, or one of the
  two converts to \<^verbatim>\<open>NaN\<close> (as an omitted field does), the update is refused with 500 and
  the world is unchanged.\<close>

lemma put_product_no_files_eq:
  assumes "images req = None \<or> images req = Some []" and "multer_body req = Some b"
  shows "put_product env w ident req =
           (case findByIdAndUpdate env ident (body_update env b) (products w) of
              Inl err \<Rightarrow> (Error 500 ''Server error'', w)
            | Inr (updatedProduct, ps) \<Rightarrow> (Json 200 updatedProduct, w\<lparr>products := ps\<rparr>))"
  using assms by (auto simp: put_product_def upload_array_def body_update_def Let_def)

lemma put_product_no_body:
  assumes "images req = None" and "body req = None"
  shows "put_product env w ident req = (Error 500 ''Server error'', w)"
  using assms by (simp add: put_product_def upload_array_def multer_body_def)

lemma updateOne_same_images:
  assumes "findOne k ds = Some d"
    and "mainImage d' = mainImage d" and "otherImages d' = otherImages d" and "doc_id d' = doc_id d"
  shows "map mainImage (updateOne k d' ds) = map mainImage ds \<and>
         map otherImages (updateOne k d' ds) = map otherImages ds \<and>
         map doc_id (updateOne k d' ds) = map doc_id ds"
proof -
  from findOne_split [OF assms(1), of d'] obtain ys zs where
    "ds = ys @ d # zs" "updateOne k d' ds = ys @ d' # zs"
    by blast
  with assms(2-4) show ?thesis by simp
qed

lemma findByIdAndUpdate_images:
  assumes "upd_mainImage u = None" and "upd_otherImages u = None"
    and "findByIdAndUpdate env ident u ps = Inr (r, ps')"
  shows "map mainImage ps' = map mainImage ps \<and> map otherImages ps' = map otherImages ps \<and>
         map doc_id ps' = map doc_id ps"
proof -
  from assms(3) obtain k where k: "castObjectId env ident = Some k"
    by (auto simp: findByIdAndUpdate_def split: option.splits)
  show ?thesis
  proof (cases "findOne k ps")
    case None
    with assms(3) k show ?thesis
      by (auto simp: findByIdAndUpdate_def split: if_splits)
  next
    case (Some p)
    with assms(3) k have ps': "ps' = updateOne k (apply_update env u p) ps"
      by (auto simp: findByIdAndUpdate_def Let_def split: if_splits)
    have "mainImage (apply_update env u p) = mainImage p"
      "otherImages (apply_update env u p) = otherImages p"
      "doc_id (apply_update env u p) = doc_id p"
      using assms(1,2) by (simp_all add: apply_update_def)
    with Some ps' show ?thesis
      using updateOne_same_images by blast
  qed
qed

lemma findByIdAndUpdate_found:
  assumes "castObjectId env ident = Some k" and "findOne k ps = Some p"
    and "upd_price u \<noteq> NaN" and "upd_quantity u \<noteq> NaN"
  shows "findByIdAndUpdate env ident u ps =
           Inr (Some (apply_update env u p), updateOne k (apply_update env u p) ps)"
  using assms by (simp add: findByIdAndUpdate_def Let_def)

lemma findByIdAndUpdate_refused:
  assumes "castObjectId env ident = None \<or> upd_price u = NaN \<or> upd_quantity u = NaN"
  shows "findByIdAndUpdate env ident u ps = Inl CastError"
  using assms by (auto simp: findByIdAndUpdate_def split: option.splits)

lemma put_product_no_files_images:
  assumes "images req = None \<or> images req = Some []"
  shows "map mainImage (products (snd (put_product env w ident req))) = map mainImage (products w) \<and>
         map otherImages (products (snd (put_product env w ident req))) = map otherImages (products w) \<and>
         map doc_id (products (snd (put_product env w ident req))) = map doc_id (products w)"
proof (cases "multer_body req")
  case None
  with assms have "images req = None" "body req = None"
    by (auto simp: multer_body_def split: option.splits)
  then show ?thesis
    by (simp add: put_product_no_body)
next
  case (Some b)
  note eq = put_product_no_files_eq [OF assms Some, of env w ident]
  have no_keys: "upd_mainImage (body_update env b) = None" "upd_otherImages (body_update env b) = None"
    by (simp_all add: body_update_def)
  show ?thesis
  proof (cases "findByIdAndUpdate env ident (body_update env b) (products w)")
    case (Inl e)
    with eq show ?thesis by simp
  next
    case (Inr res)
    obtain r ps' where res: "res = (r, ps')"
      by (cases res)
    with Inr eq have "products (snd (put_product env w ident req)) = ps'"
      by simp
    with findByIdAndUpdate_images [OF no_keys, of env ident "products w" r ps'] Inr res
    show ?thesis by simp
  qed
qed

lemma put_product_no_files_replaced:
  assumes "images req = None \<or> images req = Some []" and "multer_body req = Some b"
    and k: "castObjectId env ident = Some k" and p: "findOne k (products w) = Some p"
    and pr: "Number env (body_price b) \<noteq> NaN" and qu: "Number env (body_quantity b) \<noteq> NaN"
  shows "\<exists>p'. fst (put_product env w ident req) = Json 200 (Some p') \<and>
              findOne k (products (snd (put_product env w ident req))) = Some p' \<and>
              mainImage p' = mainImage p \<and> otherImages p' = otherImages p \<and>
              price p' = Number env (body_price b) \<and>
              quantity p' = Number env (body_quantity b) \<and>
              (\<forall>s. body_name b = Some s \<longrightarrow> name p' = Some s) \<and>
              (\<forall>s. body_category b = Some s \<longrightarrow> category p' = Some s) \<and>
              (\<forall>s. body_description b = Some s \<longrightarrow> description p' = Some s)"
proof -
  let ?u = "body_update env b"
  let ?p' = "apply_update env ?u p"
  note eq = put_product_no_files_eq [OF assms(1,2), of env w ident]
  from pr qu have "upd_price ?u \<noteq> NaN" "upd_quantity ?u \<noteq> NaN"
    by (simp_all add: body_update_def)
  with k p have "findByIdAndUpdate env ident ?u (products w) =
      Inr (Some ?p', updateOne k ?p' (products w))"
    by (rule findByIdAndUpdate_found)
  with eq have answer: "put_product env w ident req =
      (Json 200 (Some ?p'), w\<lparr>products := updateOne k ?p' (products w)\<rparr>)"
    by simp
  from p have "doc_id p = k"
    by (rule findOne_Some_id)
  then have "doc_id ?p' = k"
    by (simp add: apply_update_def)
  with p answer have found: "findOne k (products (snd (put_product env w ident req))) = Some ?p'"
    by (simp add: findOne_updateOne_same)
  have fields: "mainImage ?p' = mainImage p" "otherImages ?p' = otherImages p"
    "price ?p' = Number env (body_price b)" "quantity ?p' = Number env (body_quantity b)"
    "\<forall>s. body_name b = Some s \<longrightarrow> name ?p' = Some s"
    "\<forall>s. body_category b = Some s \<longrightarrow> category ?p' = Some s"
    "\<forall>s. body_description b = Some s \<longrightarrow> description ?p' = Some s"
    by (simp_all add: apply_update_def body_update_def set_text_def)
  from answer have "fst (put_product env w ident req) = Json 200 (Some ?p')"
    by simp
  with found fields show ?thesis by blast
qed

lemma put_product_no_files_refused:
  assumes "images req = None \<or> images req = Some []" and "multer_body req = Some b"
    and "castObjectId env ident = None \<or> Number env (body_price b) = NaN \<or>
         Number env (body_quantity b) = NaN"
  shows "put_product env w ident req = (Error 500 ''Server error'', w)"
proof -
  from assms(3) have "castObjectId env ident = None \<or> upd_price (body_update env b) = NaN \<or>
      upd_quantity (body_update env b) = NaN"
    by (simp add: body_update_def)
  then have "findByIdAndUpdate env ident (body_update env b) (products w) = Inl CastError"
    by (rule findByIdAndUpdate_refused)
  with put_product_no_files_eq [OF assms(1,2), of env w ident] show ?thesis by simp
qed

lemma put_product_full_form:
  "put_product env0 world0 ''0000000000000000000000a1'' form_no_files =
     (Json 200 (Some chair_updated), world0\<lparr>products := [chair_updated, lamp]\<rparr>)"
  by (simp add: put_product_def form_no_files_def chair_updated_def handler_defs sample_defs)

text \<open>
  \<^bold>\<open>C6.\<close> An update request without files should leave the images alone and replace the
  body fields that are supplied. The images are left alone (see above), but a request
  that supplies only \<open>price\<close> does not get its price stored: the handler writes
  \<^verbatim>\<open>Number(quantity)\<close> for the omitted \<open>quantity\<close>, which is \<^verbatim>\<open>NaN\<close>, the store refuses the
  update, and the answer is 500 with the stored price still 120 instead of 150. The
  create handler guards the same conversion (\<open>quantity\<close> of \<open>post_products\<close>).
\<close>

theorem put_product_price_only:
  "images price_only = None \<and>
   body price_only = Some (no_fields\<lparr>body_price := Some ''150''\<rparr>) \<and>
   Number env0 (Some ''150'') = Finite 150 \<and>
   findOne ''0000000000000000000000a1'' (products world0) = Some chair \<and>
   price chair = Finite 120 \<and>
   put_product env0 world0 ''0000000000000000000000a1'' price_only =
     (Error 500 ''Server error'', world0) \<and>
   findOne ''0000000000000000000000a1''
     (products (snd (put_product env0 world0 ''0000000000000000000000a1'' price_only))) = Some chair"
  by (simp add: put_product_def price_only_def handler_defs sample_defs)

end
